theory Spec2Isabelle
  imports Complex_Main
begin

section \<open>Numbers and strings\<close>

text \<open>
  The console is TypeScript; every quantity is a JavaScript \<open>number\<close>. Identifiers,
  quantities and stock levels are integer valued and are modelled as \<^typ>\<open>int\<close>.
  Monetary amounts are modelled as exact rationals (\<^typ>\<open>rat\<close>): the arithmetic of
  the source (\<open>+\<close>, \<open>-\<close>, \<open>*\<close>, comparisons) is kept operation by operation, the
  binary rounding that an IEEE double adds to each operation is not part of the model.
  Strings are \<^typ>\<open>string\<close>; only ASCII characters matter to the functions below.
\<close>

section \<open>Data of the service layer\<close>

datatype Tier = BASIC | SILVER | GOLD | PLATINUM

datatype Role = ADMIN | CLIENT

datatype OrderStatus = PENDING | CONFIRMED | CANCELED | REJECTED

datatype PaymentStatus = EN_ATTENTE | ENCAISSE | REJETE

datatype PaymentMethod = ESPECES | CHEQUE | VIREMENT

text \<open>\<open>auth.service.ts\<close>, interface \<open>User\<close>.\<close>

record User =
  id' :: int
  username :: string
  role :: Role

text \<open>\<open>client.service.ts\<close>, interface \<open>Client\<close>.\<close>

record Client =
  id' :: int
  fullName :: string
  email :: string
  tier :: Tier
  totalSpent :: rat
  totalOrders :: int
  firstOrderDate :: "string option"
  lastOrderDate :: "string option"

text \<open>\<open>product.service.ts\<close>, interface \<open>Product\<close>.\<close>

record Product =
  id' :: int
  name :: string
  price :: rat
  stock :: int

text \<open>\<open>order.service.ts\<close>, interfaces \<open>OrderItem\<close> (a line of a placed order) and
  \<open>Order\<close>.\<close>

record OrderItem_service =
  productId :: int
  productName :: string
  quantity :: int
  price :: rat

record Order =
  id' :: int
  clientName :: string
  items :: "OrderItem_service list"
  subTotal :: rat
  totalDiscount :: rat
  tax :: rat
  totalAmount :: rat
  status :: OrderStatus
  paymentStatus :: PaymentStatus

text \<open>\<open>payment.service.ts\<close>, interfaces \<open>OrderSummary\<close>, \<open>Payment\<close> and
  \<open>CreatePaymentRequest\<close> (its optional fields are \<open>undefined\<close> when \<open>None\<close>).\<close>

record OrderSummary =
  id' :: int
  totalAmount :: rat
  remainingAmount :: rat

record Payment =
  id' :: int
  order :: OrderSummary
  paymentNumber :: int
  amount :: rat
  paymentDate :: string
  encashmentDate :: "string option"
  paymentMethod :: PaymentMethod
  paymentStatus :: PaymentStatus
  reference :: string
  bank :: string
  chequeNumber :: string
  dueDate :: string

record CreatePaymentRequest =
  orderId :: int
  amount :: rat
  paymentMethod :: PaymentMethod
  reference :: string
  bank :: "string option"
  chequeNumber :: "string option"
  dueDate :: "string option"

section \<open>The order draft of \<open>CreateOrderPage\<close>\<close>

text \<open>The page's local type \<open>OrderItem\<close>: a line of the draft, with the stock recorded
  when the line was added.\<close>

record OrderItem =
  productId :: int
  productName :: string
  quantity :: int
  price :: rat
  stock :: int

text \<open>The object returned by \<open>calculateTotals\<close>.\<close>

record Totals =
  subTotal :: rat
  totalDiscount :: rat
  tax :: rat
  totalAmount :: rat
  tierDiscount :: rat
  promoDiscount :: rat

subsection \<open>The promo pattern \<open>/^PROMO-[A-Z0-9]{4}$/\<close>\<close>

text \<open>The character class \<open>[A-Z0-9]\<close>.\<close>

definition promo_class :: "char \<Rightarrow> bool" where
  "promo_class c = (c \<in> set ''ABCDEFGHIJKLMNOPQRSTUVWXYZ0123456789'')"

text \<open>Matching a literal at the head of the input; the rest of the input is returned.\<close>

fun match_literal :: "string \<Rightarrow> string \<Rightarrow> string option" where
  "match_literal [] s = Some s"
| "match_literal (c # cs) [] = None"
| "match_literal (c # cs) (d # ds) = (if c = d then match_literal cs ds else None)"

text \<open>Matching \<open>[A-Z0-9]{n}\<close> at the head of the input.\<close>

fun match_class :: "nat \<Rightarrow> string \<Rightarrow> string option" where
  "match_class 0 s = Some s"
| "match_class (Suc n) [] = None"
| "match_class (Suc n) (d # ds) = (if promo_class d then match_class n ds else None)"

text \<open>\<open>/^PROMO-[A-Z0-9]{4}$/.test(s)\<close>: the pattern is anchored at both ends and has no
  flags, so \<open>$\<close> matches at the end of the input only.\<close>

definition promo_test :: "string \<Rightarrow> bool" where
  "promo_test s =
     (case match_literal ''PROMO-'' s of
        None \<Rightarrow> False
      | Some r \<Rightarrow> (case match_class 4 r of None \<Rightarrow> False | Some r' \<Rightarrow> r' = []))"

subsection \<open>\<open>calculateTotals\<close>\<close>

text \<open>
  The function reads the component state \<open>orderItems\<close>, \<open>selectedClient\<close> (\<open>null\<close>
  until a client is chosen) and \<open>promoCode\<close> (the empty string until one is typed);
  they are its arguments here. \<open>reduce\<close> is a left fold from \<open>0\<close>.
\<close>

definition calculateTotals :: "OrderItem list \<Rightarrow> Client option \<Rightarrow> string \<Rightarrow> Totals" where
  "calculateTotals orderItems selectedClient promoCode =
     (let sub = foldl (\<lambda>sum item. sum + OrderItem.price item * of_int (quantity item)) 0 orderItems;
          tierD =
            (case selectedClient of
               None \<Rightarrow> 0
             | Some c \<Rightarrow>
                 if tier c = SILVER \<and> sub \<ge> 500 then sub * (5 / 100)
                 else if tier c = GOLD \<and> sub \<ge> 800 then sub * (10 / 100)
                 else if tier c = PLATINUM \<and> sub \<ge> 1200 then sub * (15 / 100)
                 else 0);
          promoD = (if promoCode \<noteq> [] \<and> promo_test promoCode then sub * (5 / 100) else 0);
          totalD = tierD + promoD;
          taxableAmount = sub - totalD;
          taxV = taxableAmount * (20 / 100);
          total = taxableAmount + taxV
      in \<lparr>subTotal = sub, totalDiscount = totalD, tax = taxV, totalAmount = total,
          tierDiscount = tierD, promoDiscount = promoD\<rparr>)"

subsection \<open>Editing the draft\<close>











subsection \<open>Minor units\<close>


section \<open>\<open>OrderDetailPage\<close>\<close>

text \<open>
  The source file holds two revisions of the page. The model follows the later one, which
  loads the payments of the order; the earlier one has no payment state and shows the
  confirm button on status and role alone.
\<close>

text \<open>
  The component state: the signed-in user of the auth context (\<open>null\<close> when nobody is
  signed in), the loaded order and its payments, and the three flags.
\<close>

record OrderDetailState =
  user :: "User option"
  order :: "Order option"
  payments :: "Payment list"
  loading :: bool
  error :: "string option"
  actionLoading :: bool

text \<open>\<open>user?.role === 'ADMIN'\<close>.\<close>

definition isAdmin :: "User option \<Rightarrow> bool" where
  "isAdmin u = (case u of None \<Rightarrow> False | Some usr \<Rightarrow> role usr = ADMIN)"

text \<open>\<open>payments.filter(p => p.paymentStatus === 'ENCAISSE').reduce((sum, p) => sum + p.amount, 0)\<close>.\<close>

definition totalPaid :: "Payment list \<Rightarrow> rat" where
  "totalPaid ps =
     foldl (\<lambda>sum p. sum + Payment.amount p) 0
       (filter (\<lambda>p. Payment.paymentStatus p = ENCAISSE) ps)"

text \<open>\<open>order ? order.totalAmount - totalPaid : 0\<close>.\<close>

definition remainingAmount :: "Order option \<Rightarrow> Payment list \<Rightarrow> rat" where
  "remainingAmount ord ps =
     (case ord of Some od \<Rightarrow> Order.totalAmount od - totalPaid ps | None \<Rightarrow> 0)"

definition canConfirm :: "Order \<Rightarrow> User option \<Rightarrow> Payment list \<Rightarrow> bool" where
  "canConfirm od u ps =
     (Order.status od = PENDING \<and> isAdmin u \<and> remainingAmount (Some od) ps \<le> 0)"

definition canCancel :: "Order \<Rightarrow> User option \<Rightarrow> bool" where
  "canCancel od u = (Order.status od = PENDING \<and> isAdmin u)"

text \<open>
  The four handlers that call a status-changing endpoint: \<open>handleConfirm\<close>,
  \<open>handleCancel\<close>, \<open>handleEncash(payment.id)\<close> and \<open>handleReject(payment.id)\<close>.
  A rendered button is its handler and its \<open>disabled\<close> attribute.
\<close>

datatype Action = handleConfirm | handleCancel | handleEncash int | handleReject int

record Button =
  onClick :: Action
  disabled :: bool

text \<open>The two buttons under a payment row, rendered when
  \<open>isAdmin && payment.paymentStatus === 'EN_ATTENTE'\<close>.\<close>

definition paymentButtons :: "OrderDetailState \<Rightarrow> Payment \<Rightarrow> Button list" where
  "paymentButtons s p =
     (if isAdmin (user s) \<and> Payment.paymentStatus p = EN_ATTENTE
      then [\<lparr>onClick = handleEncash (Payment.id' p), disabled = actionLoading s\<rparr>,
            \<lparr>onClick = handleReject (Payment.id' p), disabled = actionLoading s\<rparr>]
      else [])"

text \<open>
  The buttons of the page that carry one of the four handlers, in document order: the
  header (\<open>canConfirm\<close>, \<open>canCancel\<close>), the payment rows, and the panel
  ``Actions for Admin''. While loading, and when the load failed or there is no order,
  the page returns early and renders none of them.
\<close>

definition render :: "OrderDetailState \<Rightarrow> Button list" where
  "render s =
     (if loading s then []
      else if error s \<noteq> None \<and> error s \<noteq> Some [] then []
      else
        (case order s of
           None \<Rightarrow> []
         | Some od \<Rightarrow>
             (if canConfirm od (user s) (payments s)
              then [\<lparr>onClick = handleConfirm, disabled = actionLoading s\<rparr>] else [])
           @ (if canCancel od (user s)
              then [\<lparr>onClick = handleCancel, disabled = actionLoading s\<rparr>] else [])
           @ concat (map (paymentButtons s) (payments s))
           @ (if isAdmin (user s) \<and> Order.status od = PENDING
              then [\<lparr>onClick = handleConfirm,
                     disabled = (actionLoading s \<or> remainingAmount (order s) (payments s) > 0)\<rparr>,
                    \<lparr>onClick = handleCancel, disabled = actionLoading s\<rparr>]
              else [])))"

text \<open>The handlers a click can start: those of the rendered buttons that are not disabled.\<close>

definition clickable :: "OrderDetailState \<Rightarrow> Action list" where
  "clickable s = map onClick (filter (\<lambda>b. \<not> disabled b) (render s))"

section \<open>\<open>AddPaymentPage\<close>\<close>







section \<open>Totals\<close>

lemma foldl_line_sum:
  "foldl (\<lambda>sum item. sum + OrderItem.price item * of_int (quantity item)) a xs =
     a + (\<Sum>item\<leftarrow>xs. OrderItem.price item * of_int (quantity item))"
  by (induction xs arbitrary: a) (simp_all add: add.assoc)

lemma subTotal_calculateTotals:
  "subTotal (calculateTotals orderItems c promo) =
     (\<Sum>item\<leftarrow>orderItems. OrderItem.price item * of_int (quantity item))"
  by (simp add: calculateTotals_def Let_def foldl_line_sum)



lemma tierDiscount_calculateTotals:
  "tierDiscount (calculateTotals orderItems selectedClient promo) =
     (case selectedClient of
        None \<Rightarrow> 0
      | Some c \<Rightarrow>
          (case tier c of
             BASIC \<Rightarrow> 0
           | SILVER \<Rightarrow>
               if subTotal (calculateTotals orderItems selectedClient promo) \<ge> 500
               then subTotal (calculateTotals orderItems selectedClient promo) * (5 / 100) else 0
           | GOLD \<Rightarrow>
               if subTotal (calculateTotals orderItems selectedClient promo) \<ge> 800
               then subTotal (calculateTotals orderItems selectedClient promo) * (10 / 100) else 0
           | PLATINUM \<Rightarrow>
               if subTotal (calculateTotals orderItems selectedClient promo) \<ge> 1200
               then subTotal (calculateTotals orderItems selectedClient promo) * (15 / 100) else 0))"
  unfolding calculateTotals_def Let_def
  by (simp only: Totals.simps split: option.split Tier.split) simp

lemma match_literal_iff: "match_literal p s = Some r \<longleftrightarrow> s = p @ r"
  by (induction p s rule: match_literal.induct) auto

lemma match_class_iff:
  "match_class n s = Some r \<longleftrightarrow> (\<exists>cs. s = cs @ r \<and> length cs = n \<and> list_all promo_class cs)"
proof (induction n s rule: match_class.induct)
  case (1 s)
  then show ?case by auto
next
  case (2 n)
  then show ?case by auto
next
  case (3 n d ds)
  show ?case
  proof (cases "promo_class d")
    case True
    have "(\<exists>cs. d # ds = cs @ r \<and> length cs = Suc n \<and> list_all promo_class cs)
        \<longleftrightarrow> (\<exists>cs'. ds = cs' @ r \<and> length cs' = n \<and> list_all promo_class cs')"
      (is "?L \<longleftrightarrow> ?R")
    proof
      assume ?L
      then obtain cs where cs: "d # ds = cs @ r" "length cs = Suc n" "list_all promo_class cs"
        by blast
      then obtain c cs' where "cs = c # cs'" by (cases cs) auto
      with cs show ?R by auto
    next
      assume ?R
      then obtain cs' where "ds = cs' @ r" "length cs' = n" "list_all promo_class cs'" by blast
      with True have "d # ds = (d # cs') @ r \<and> length (d # cs') = Suc n \<and> list_all promo_class (d # cs')"
        by simp
      then show ?L by blast
    qed
    with True 3 show ?thesis by simp
  next
    case False
    have "\<not> (\<exists>cs. d # ds = cs @ r \<and> length cs = Suc n \<and> list_all promo_class cs)"
    proof
      assume "\<exists>cs. d # ds = cs @ r \<and> length cs = Suc n \<and> list_all promo_class cs"
      then obtain cs where cs: "d # ds = cs @ r" "length cs = Suc n" "list_all promo_class cs"
        by blast
      then obtain c cs' where "cs = c # cs'" by (cases cs) auto
      with cs False show False by auto
    qed
    with False show ?thesis by simp
  qed
qed

lemma promo_test_iff:
  "promo_test s \<longleftrightarrow>
     (\<exists>a b c d. s = ''PROMO-'' @ [a, b, c, d]
        \<and> promo_class a \<and> promo_class b \<and> promo_class c \<and> promo_class d)"
  (is "?L \<longleftrightarrow> ?R")
proof
  assume ?L
  then obtain r where r: "match_literal ''PROMO-'' s = Some r" "match_class 4 r = Some []"
    by (auto simp: promo_test_def split: option.splits)
  from r(2) obtain cs where cs: "r = cs" "length cs = 4" "list_all promo_class cs"
    unfolding match_class_iff by auto
  from cs(2) obtain a b c d where "cs = [a, b, c, d]"
    by (auto simp: length_Suc_conv numeral_eq_Suc)
  with r(1) cs show ?R unfolding match_literal_iff by auto
next
  assume ?R
  then obtain a b c d where s: "s = ''PROMO-'' @ [a, b, c, d]"
    and cl: "promo_class a" "promo_class b" "promo_class c" "promo_class d" by blast
  have "match_literal ''PROMO-'' s = Some [a, b, c, d]"
    unfolding match_literal_iff using s by simp
  moreover have "match_class 4 [a, b, c, d] = Some []"
    unfolding match_class_iff using cl by simp
  ultimately show ?L by (simp add: promo_test_def)
qed

lemmas promo_eval = promo_test_def promo_class_def eval_nat_numeral



lemma promoDiscount_calculateTotals:
  "promoDiscount (calculateTotals orderItems c promo) =
     (if promo_test promo then subTotal (calculateTotals orderItems c promo) * (5 / 100) else 0)"
proof -
  have "\<not> promo_test []" by (simp add: promo_test_def)
  then have "(promo \<noteq> [] \<and> promo_test promo) = promo_test promo" by auto
  then show ?thesis
    unfolding calculateTotals_def Let_def by (simp only: Totals.simps)
qed

lemma calculateTotals_ignores_bad_promo:
  "\<not> promo_test promo \<Longrightarrow> calculateTotals orderItems c promo = calculateTotals orderItems c ''''"
  unfolding calculateTotals_def Let_def by simp




text \<open>
  C3. The tier discount is a percentage of \<open>subTotal\<close> gated by a threshold: for a SILVER
  client 5% when \<open>subTotal \<ge> 500\<close> and nothing below, for GOLD 10% from 800, for PLATINUM
  15% from 1200, for BASIC nothing. Only the rate and threshold of the client's own tier
  are consulted: a PLATINUM client below 1200 gets no discount, not the GOLD or SILVER one.
\<close>

theorem tier_discount_threshold_gated:
  "tierDiscount (calculateTotals orderItems (Some c) promo) =
     (let s = subTotal (calculateTotals orderItems (Some c) promo) in
      case tier c of
        BASIC \<Rightarrow> 0
      | SILVER \<Rightarrow> if s \<ge> 500 then s * (5 / 100) else 0
      | GOLD \<Rightarrow> if s \<ge> 800 then s * (10 / 100) else 0
      | PLATINUM \<Rightarrow> if s \<ge> 1200 then s * (15 / 100) else 0)"
  unfolding Let_def tierDiscount_calculateTotals [of orderItems "Some c" promo]
  by (simp only: option.case)

text \<open>The boundary: a SILVER client at 499.99 gets nothing and at 500.00 gets 25.00; a
  PLATINUM client at 1000.00 gets nothing.\<close>

theorem tier_discount_threshold_gated_witness:
  "tierDiscount (calculateTotals
       [\<lparr>productId = 1, productName = ''p'', quantity = 1, price = 49999 / 100, stock = 5\<rparr>]
       (Some \<lparr>Client.id' = 7, fullName = ''A'', email = ''a@b.c'', tier = SILVER, totalSpent = 0,
              totalOrders = 0, firstOrderDate = None, lastOrderDate = None\<rparr>) '''') = 0
   \<and> tierDiscount (calculateTotals
       [\<lparr>productId = 1, productName = ''p'', quantity = 1, price = 500, stock = 5\<rparr>]
       (Some \<lparr>Client.id' = 7, fullName = ''A'', email = ''a@b.c'', tier = SILVER, totalSpent = 0,
              totalOrders = 0, firstOrderDate = None, lastOrderDate = None\<rparr>) '''') = 25
   \<and> tierDiscount (calculateTotals
       [\<lparr>productId = 1, productName = ''p'', quantity = 2, price = 500, stock = 5\<rparr>]
       (Some \<lparr>Client.id' = 7, fullName = ''A'', email = ''a@b.c'', tier = PLATINUM, totalSpent = 0,
              totalOrders = 0, firstOrderDate = None, lastOrderDate = None\<rparr>) '''') = 0"
  using
    tier_discount_threshold_gated [of
      "[\<lparr>productId = 1, productName = ''p'', quantity = 1, price = 49999 / 100, stock = 5\<rparr>]"
      "\<lparr>Client.id' = 7, fullName = ''A'', email = ''a@b.c'', tier = SILVER, totalSpent = 0,
              totalOrders = 0, firstOrderDate = None, lastOrderDate = None\<rparr>" "''''"]
    tier_discount_threshold_gated [of
      "[\<lparr>productId = 1, productName = ''p'', quantity = 1, price = 500, stock = 5\<rparr>]"
      "\<lparr>Client.id' = 7, fullName = ''A'', email = ''a@b.c'', tier = SILVER, totalSpent = 0,
              totalOrders = 0, firstOrderDate = None, lastOrderDate = None\<rparr>" "''''"]
    tier_discount_threshold_gated [of
      "[\<lparr>productId = 1, productName = ''p'', quantity = 2, price = 500, stock = 5\<rparr>]"
      "\<lparr>Client.id' = 7, fullName = ''A'', email = ''a@b.c'', tier = PLATINUM, totalSpent = 0,
              totalOrders = 0, firstOrderDate = None, lastOrderDate = None\<rparr>" "''''"]
  by (simp add: subTotal_calculateTotals)

text \<open>
  C4, as amended. The total discount is the sum of the tier discount and the promo
  discount, for every draft, client and code; the two are never compounded.
\<close>

theorem totalDiscount_additive:
  "totalDiscount (calculateTotals orderItems c promo) =
     tierDiscount (calculateTotals orderItems c promo)
     + promoDiscount (calculateTotals orderItems c promo)"
  unfolding calculateTotals_def Let_def by (simp only: Totals.simps)

text \<open>At a subtotal of 1200 a PLATINUM client with a valid code gets 180 + 60 = 240; at
  1000 the PLATINUM threshold is not met and the total discount is 0 + 50.\<close>

theorem totalDiscount_additive_witness:
  "totalDiscount (calculateTotals
       [\<lparr>productId = 1, productName = ''p'', quantity = 1, price = 1200, stock = 5\<rparr>]
       (Some \<lparr>Client.id' = 7, fullName = ''A'', email = ''a@b.c'', tier = PLATINUM, totalSpent = 0,
              totalOrders = 0, firstOrderDate = None, lastOrderDate = None\<rparr>) ''PROMO-AB12'') = 180 + 60
   \<and> totalDiscount (calculateTotals
       [\<lparr>productId = 1, productName = ''p'', quantity = 1, price = 1000, stock = 5\<rparr>]
       (Some \<lparr>Client.id' = 7, fullName = ''A'', email = ''a@b.c'', tier = PLATINUM, totalSpent = 0,
              totalOrders = 0, firstOrderDate = None, lastOrderDate = None\<rparr>) ''PROMO-AB12'') = 0 + 50"
proof -
  have a: "tierDiscount (calculateTotals
       [\<lparr>productId = 1, productName = ''p'', quantity = 1, price = 1200, stock = 5\<rparr>]
       (Some \<lparr>Client.id' = 7, fullName = ''A'', email = ''a@b.c'', tier = PLATINUM, totalSpent = 0,
              totalOrders = 0, firstOrderDate = None, lastOrderDate = None\<rparr>) ''PROMO-AB12'') = 180"
    by (simp add: calculateTotals_def promo_eval)
  have b: "promoDiscount (calculateTotals
       [\<lparr>productId = 1, productName = ''p'', quantity = 1, price = 1200, stock = 5\<rparr>]
       (Some \<lparr>Client.id' = 7, fullName = ''A'', email = ''a@b.c'', tier = PLATINUM, totalSpent = 0,
              totalOrders = 0, firstOrderDate = None, lastOrderDate = None\<rparr>) ''PROMO-AB12'') = 60"
    by (simp add: calculateTotals_def promo_eval)
  have c: "tierDiscount (calculateTotals
       [\<lparr>productId = 1, productName = ''p'', quantity = 1, price = 1000, stock = 5\<rparr>]
       (Some \<lparr>Client.id' = 7, fullName = ''A'', email = ''a@b.c'', tier = PLATINUM, totalSpent = 0,
              totalOrders = 0, firstOrderDate = None, lastOrderDate = None\<rparr>) ''PROMO-AB12'') = 0"
    by (simp add: calculateTotals_def promo_eval)
  have d: "promoDiscount (calculateTotals
       [\<lparr>productId = 1, productName = ''p'', quantity = 1, price = 1000, stock = 5\<rparr>]
       (Some \<lparr>Client.id' = 7, fullName = ''A'', email = ''a@b.c'', tier = PLATINUM, totalSpent = 0,
              totalOrders = 0, firstOrderDate = None, lastOrderDate = None\<rparr>) ''PROMO-AB12'') = 50"
    by (simp add: calculateTotals_def promo_eval)
  show ?thesis
    unfolding totalDiscount_additive a b c d by simp
qed

text \<open>The example of the claim: one line of 1000.00, a PLATINUM client and the code
  \<open>PROMO-AB12\<close>. The total discount is not 200.00.\<close>

theorem platinum_promo_1000_counterexample:
  "totalDiscount (calculateTotals
       [\<lparr>productId = 1, productName = ''p'', quantity = 1, price = 1000, stock = 5\<rparr>]
       (Some \<lparr>Client.id' = 7, fullName = ''A'', email = ''a@b.c'', tier = PLATINUM, totalSpent = 0,
              totalOrders = 0, firstOrderDate = None, lastOrderDate = None\<rparr>) ''PROMO-AB12'') \<noteq> 200"
  by (simp add: calculateTotals_def promo_eval)

text \<open>
  C5. A promo code that is \<open>PROMO-\<close> followed by exactly four characters from
  \<open>A\<close>..\<open>Z\<close>, \<open>0\<close>..\<open>9\<close> gives a promo discount of 5% of \<open>subTotal\<close>; any other
  string, the empty (absent) code included, gives a promo discount of 0, and the totals
  are then the very totals computed without a code: the code is ignored, nothing fails.
\<close>

theorem promo_discount_pattern:
  "promoDiscount (calculateTotals orderItems cl promo) =
     (if (\<exists>a b c d. promo = ''PROMO-'' @ [a, b, c, d]
            \<and> promo_class a \<and> promo_class b \<and> promo_class c \<and> promo_class d)
      then subTotal (calculateTotals orderItems cl promo) * (5 / 100) else 0)
   \<and> (\<not> (\<exists>a b c d. promo = ''PROMO-'' @ [a, b, c, d]
            \<and> promo_class a \<and> promo_class b \<and> promo_class c \<and> promo_class d)
      \<longrightarrow> calculateTotals orderItems cl promo = calculateTotals orderItems cl '''')"
  unfolding promo_test_iff [symmetric]
  using promoDiscount_calculateTotals [of orderItems cl promo]
    calculateTotals_ignores_bad_promo [of promo orderItems cl]
  by blast
theorem promo_discount_pattern_witness:
  "promoDiscount (calculateTotals
       [\<lparr>productId = 1, productName = ''p'', quantity = 2, price = 100, stock = 5\<rparr>]
       None ''PROMO-AB12'') = 10
   \<and> calculateTotals
       [\<lparr>productId = 1, productName = ''p'', quantity = 2, price = 100, stock = 5\<rparr>]
       None ''PROMO-ab12''
     = calculateTotals
       [\<lparr>productId = 1, productName = ''p'', quantity = 2, price = 100, stock = 5\<rparr>]
       None ''''"
proof -
  have yes: "\<exists>a b c d. ''PROMO-AB12'' = ''PROMO-'' @ [a, b, c, d]
      \<and> promo_class a \<and> promo_class b \<and> promo_class c \<and> promo_class d"
    by (simp add: promo_class_def)
  have no: "\<not> (\<exists>a b c d. ''PROMO-ab12'' = ''PROMO-'' @ [a, b, c, d]
      \<and> promo_class a \<and> promo_class b \<and> promo_class c \<and> promo_class d)"
    by (simp add: promo_class_def)
  show ?thesis
    using yes no
      promo_discount_pattern [of
        "[\<lparr>productId = 1, productName = ''p'', quantity = 2, price = 100, stock = 5\<rparr>]"
        None "''PROMO-AB12''"]
      promo_discount_pattern [of
        "[\<lparr>productId = 1, productName = ''p'', quantity = 2, price = 100, stock = 5\<rparr>]"
        None "''PROMO-ab12''"]
    by (simp add: subTotal_calculateTotals)
qed




section \<open>The draft under edits\<close>


















section \<open>Confirmation, payments and roles on \<open>OrderDetailPage\<close>\<close>

lemma foldl_amount_sum:
  "foldl (\<lambda>sum p. sum + Payment.amount p) a ps = a + (\<Sum>p\<leftarrow>ps. Payment.amount p)"
  by (induction ps arbitrary: a) (simp_all add: add.assoc)

lemma totalPaid_sum:
  "totalPaid ps = (\<Sum>p\<leftarrow>filter (\<lambda>p. Payment.paymentStatus p = ENCAISSE) ps. Payment.amount p)"
  by (simp add: totalPaid_def foldl_amount_sum)

lemma totalPaid_Nil: "totalPaid [] = 0"
  by (simp add: totalPaid_sum)





lemma set_clickable:
  "set (clickable s) = {onClick b | b. b \<in> set (render s) \<and> \<not> disabled b}"
  by (auto simp: clickable_def)

lemma paymentButtons_click:
  "b \<in> set (paymentButtons s p) \<Longrightarrow>
     isAdmin (user s) \<and> Payment.paymentStatus p = EN_ATTENTE
     \<and> disabled b = actionLoading s
     \<and> (onClick b = handleEncash (Payment.id' p) \<or> onClick b = handleReject (Payment.id' p))"
  by (auto simp: paymentButtons_def split: if_splits)

lemma in_if_single: "b \<in> set (if c then [x] else []) \<longleftrightarrow> c \<and> b = x"
  by (cases c) simp_all

lemma in_if_pair: "b \<in> set (if c then [x, y] else []) \<longleftrightarrow> c \<and> (b = x \<or> b = y)"
  by (cases c) simp_all

lemma render_Some:
  "order s = Some od \<Longrightarrow>
   b \<in> set (render s) \<longleftrightarrow>
     \<not> loading s \<and> (error s = None \<or> error s = Some [])
     \<and> ((canConfirm od (user s) (payments s)
          \<and> b = \<lparr>onClick = handleConfirm, disabled = actionLoading s\<rparr>)
        \<or> (canCancel od (user s) \<and> b = \<lparr>onClick = handleCancel, disabled = actionLoading s\<rparr>)
        \<or> (\<exists>p \<in> set (payments s). b \<in> set (paymentButtons s p))
        \<or> (isAdmin (user s) \<and> Order.status od = PENDING
            \<and> (b = \<lparr>onClick = handleConfirm,
                     disabled = (actionLoading s \<or> remainingAmount (order s) (payments s) > 0)\<rparr>
               \<or> b = \<lparr>onClick = handleCancel, disabled = actionLoading s\<rparr>)))"
  unfolding render_def
  by (simp only: option.case set_append Un_iff in_if_single in_if_pair set_concat set_map
        UN_iff bex_simps image_iff split: if_split) auto

lemma render_None: "order s = None \<Longrightarrow> render s = []"
  by (simp add: render_def)




text \<open>
  C9. Whatever handler among confirm, cancel, encash and reject can be started from the
  page, the user is an administrator; if it is confirm or cancel the order is \<open>PENDING\<close>;
  if it is encash or reject of a payment, that payment is one of the listed payments and
  is \<open>EN_ATTENTE\<close>. Hence for a user who is not an administrator, and for an order or a
  payment in a final state, the corresponding handlers cannot be started.
\<close>

theorem mutating_actions_need_admin_and_pending:
  assumes "a \<in> set (clickable s)"
  shows "isAdmin (user s)
    \<and> (a = handleConfirm \<or> a = handleCancel \<longrightarrow>
         (\<exists>od. order s = Some od \<and> Order.status od = PENDING))
    \<and> (\<forall>pid. a = handleEncash pid \<or> a = handleReject pid \<longrightarrow>
         (\<exists>p \<in> set (payments s). Payment.id' p = pid \<and> Payment.paymentStatus p = EN_ATTENTE))"
proof -
  from assms obtain b where b: "b \<in> set (render s)" "\<not> disabled b" "onClick b = a"
    unfolding set_clickable by auto
  then obtain od where od: "order s = Some od"
    by (cases "order s") (simp_all add: render_None)
  from b(1) have "(canConfirm od (user s) (payments s)
          \<and> b = \<lparr>onClick = handleConfirm, disabled = actionLoading s\<rparr>)
        \<or> (canCancel od (user s) \<and> b = \<lparr>onClick = handleCancel, disabled = actionLoading s\<rparr>)
        \<or> (\<exists>p \<in> set (payments s). b \<in> set (paymentButtons s p))
        \<or> (isAdmin (user s) \<and> Order.status od = PENDING
            \<and> (b = \<lparr>onClick = handleConfirm,
                     disabled = (actionLoading s \<or> remainingAmount (order s) (payments s) > 0)\<rparr>
               \<or> b = \<lparr>onClick = handleCancel, disabled = actionLoading s\<rparr>))"
    unfolding render_Some [OF od] by blast
  then consider
      (confirm) "canConfirm od (user s) (payments s)" "a = handleConfirm"
    | (cancel) "canCancel od (user s)" "a = handleCancel"
    | (pay) p where "p \<in> set (payments s)" "b \<in> set (paymentButtons s p)"
    | (panel) "isAdmin (user s)" "Order.status od = PENDING" "a = handleConfirm \<or> a = handleCancel"
    using b(3) by auto
  then show ?thesis
  proof cases
    case confirm
    with od show ?thesis by (simp add: canConfirm_def)
  next
    case cancel
    with od show ?thesis by (simp add: canCancel_def)
  next
    case pay
    from paymentButtons_click [OF pay(2)] b(3) pay(1) show ?thesis by auto
  next
    case panel
    with od show ?thesis by auto
  qed
qed

theorem mutating_actions_need_admin_and_pending_witness:
  "handleEncash 5 \<in> set (clickable
       \<lparr>user = Some \<lparr>User.id' = 3, username = ''u'', role = ADMIN\<rparr>,
        order = Some (\<lparr>Order.id' = 1, clientName = ''Amal'', items = [], subTotal = 100, totalDiscount = 0,
          tax = 20, totalAmount = 120, status = PENDING, paymentStatus = EN_ATTENTE\<rparr>),
        payments = [\<lparr>Payment.id' = 5, order = \<lparr>OrderSummary.id' = 1, totalAmount = 120, remainingAmount = 120\<rparr>,
          paymentNumber = 1, amount = 50, paymentDate = ''2024-05-02'', encashmentDate = None,
          paymentMethod = ESPECES, paymentStatus = EN_ATTENTE, reference = ''R-1'', bank = [],
          chequeNumber = [], dueDate = []\<rparr>],
        loading = False, error = None, actionLoading = False\<rparr>)
   \<and> handleCancel \<in> set (clickable
       \<lparr>user = Some \<lparr>User.id' = 3, username = ''u'', role = ADMIN\<rparr>,
        order = Some (\<lparr>Order.id' = 1, clientName = ''Amal'', items = [], subTotal = 100, totalDiscount = 0,
          tax = 20, totalAmount = 120, status = PENDING, paymentStatus = EN_ATTENTE\<rparr>),
        payments = [\<lparr>Payment.id' = 5, order = \<lparr>OrderSummary.id' = 1, totalAmount = 120, remainingAmount = 120\<rparr>,
          paymentNumber = 1, amount = 50, paymentDate = ''2024-05-02'', encashmentDate = None,
          paymentMethod = ESPECES, paymentStatus = EN_ATTENTE, reference = ''R-1'', bank = [],
          chequeNumber = [], dueDate = []\<rparr>],
        loading = False, error = None, actionLoading = False\<rparr>)
   \<and> isAdmin (Some \<lparr>User.id' = 3, username = ''u'', role = ADMIN\<rparr>)
   \<and> clickable
       \<lparr>user = Some \<lparr>User.id' = 3, username = ''u'', role = CLIENT\<rparr>,
        order = Some (\<lparr>Order.id' = 1, clientName = ''Amal'', items = [], subTotal = 100, totalDiscount = 0,
          tax = 20, totalAmount = 120, status = PENDING, paymentStatus = EN_ATTENTE\<rparr>),
        payments = [\<lparr>Payment.id' = 5, order = \<lparr>OrderSummary.id' = 1, totalAmount = 120, remainingAmount = 120\<rparr>,
          paymentNumber = 1, amount = 50, paymentDate = ''2024-05-02'', encashmentDate = None,
          paymentMethod = ESPECES, paymentStatus = EN_ATTENTE, reference = ''R-1'', bank = [],
          chequeNumber = [], dueDate = []\<rparr>],
        loading = False, error = None, actionLoading = False\<rparr> = []
   \<and> clickable
       \<lparr>user = Some \<lparr>User.id' = 3, username = ''u'', role = ADMIN\<rparr>,
        order = Some (\<lparr>Order.id' = 1, clientName = ''Amal'', items = [], subTotal = 100, totalDiscount = 0,
          tax = 20, totalAmount = 120, status = CONFIRMED, paymentStatus = EN_ATTENTE\<rparr>),
        payments = [\<lparr>Payment.id' = 5, order = \<lparr>OrderSummary.id' = 1, totalAmount = 120, remainingAmount = 120\<rparr>,
          paymentNumber = 1, amount = 120, paymentDate = ''2024-05-02'', encashmentDate = None,
          paymentMethod = ESPECES, paymentStatus = ENCAISSE, reference = ''R-1'', bank = [],
          chequeNumber = [], dueDate = []\<rparr>],
        loading = False, error = None, actionLoading = False\<rparr> = []"
proof -
  have enc: "handleEncash 5 \<in> set (clickable
       \<lparr>user = Some \<lparr>User.id' = 3, username = ''u'', role = ADMIN\<rparr>,
        order = Some (\<lparr>Order.id' = 1, clientName = ''Amal'', items = [], subTotal = 100, totalDiscount = 0,
          tax = 20, totalAmount = 120, status = PENDING, paymentStatus = EN_ATTENTE\<rparr>),
        payments = [\<lparr>Payment.id' = 5, order = \<lparr>OrderSummary.id' = 1, totalAmount = 120, remainingAmount = 120\<rparr>,
          paymentNumber = 1, amount = 50, paymentDate = ''2024-05-02'', encashmentDate = None,
          paymentMethod = ESPECES, paymentStatus = EN_ATTENTE, reference = ''R-1'', bank = [],
          chequeNumber = [], dueDate = []\<rparr>],
        loading = False, error = None, actionLoading = False\<rparr>)"
    by (simp add: clickable_def render_def paymentButtons_def canConfirm_def canCancel_def isAdmin_def
        remainingAmount_def totalPaid_def)
  have can: "handleCancel \<in> set (clickable
       \<lparr>user = Some \<lparr>User.id' = 3, username = ''u'', role = ADMIN\<rparr>,
        order = Some (\<lparr>Order.id' = 1, clientName = ''Amal'', items = [], subTotal = 100, totalDiscount = 0,
          tax = 20, totalAmount = 120, status = PENDING, paymentStatus = EN_ATTENTE\<rparr>),
        payments = [\<lparr>Payment.id' = 5, order = \<lparr>OrderSummary.id' = 1, totalAmount = 120, remainingAmount = 120\<rparr>,
          paymentNumber = 1, amount = 50, paymentDate = ''2024-05-02'', encashmentDate = None,
          paymentMethod = ESPECES, paymentStatus = EN_ATTENTE, reference = ''R-1'', bank = [],
          chequeNumber = [], dueDate = []\<rparr>],
        loading = False, error = None, actionLoading = False\<rparr>)"
    by (simp add: clickable_def render_def paymentButtons_def canConfirm_def canCancel_def isAdmin_def
        remainingAmount_def totalPaid_def)
  have "isAdmin (Some \<lparr>User.id' = 3, username = ''u'', role = ADMIN\<rparr>)"
    using mutating_actions_need_admin_and_pending [OF enc]
      mutating_actions_need_admin_and_pending [OF can] by simp
  moreover have "clickable
       \<lparr>user = Some \<lparr>User.id' = 3, username = ''u'', role = CLIENT\<rparr>,
        order = Some (\<lparr>Order.id' = 1, clientName = ''Amal'', items = [], subTotal = 100, totalDiscount = 0,
          tax = 20, totalAmount = 120, status = PENDING, paymentStatus = EN_ATTENTE\<rparr>),
        payments = [\<lparr>Payment.id' = 5, order = \<lparr>OrderSummary.id' = 1, totalAmount = 120, remainingAmount = 120\<rparr>,
          paymentNumber = 1, amount = 50, paymentDate = ''2024-05-02'', encashmentDate = None,
          paymentMethod = ESPECES, paymentStatus = EN_ATTENTE, reference = ''R-1'', bank = [],
          chequeNumber = [], dueDate = []\<rparr>],
        loading = False, error = None, actionLoading = False\<rparr> = []"
    by (simp add: clickable_def render_def paymentButtons_def canConfirm_def canCancel_def isAdmin_def
        remainingAmount_def totalPaid_def)
  moreover have "clickable
       \<lparr>user = Some \<lparr>User.id' = 3, username = ''u'', role = ADMIN\<rparr>,
        order = Some (\<lparr>Order.id' = 1, clientName = ''Amal'', items = [], subTotal = 100, totalDiscount = 0,
          tax = 20, totalAmount = 120, status = CONFIRMED, paymentStatus = EN_ATTENTE\<rparr>),
        payments = [\<lparr>Payment.id' = 5, order = \<lparr>OrderSummary.id' = 1, totalAmount = 120, remainingAmount = 120\<rparr>,
          paymentNumber = 1, amount = 120, paymentDate = ''2024-05-02'', encashmentDate = None,
          paymentMethod = ESPECES, paymentStatus = ENCAISSE, reference = ''R-1'', bank = [],
          chequeNumber = [], dueDate = []\<rparr>],
        loading = False, error = None, actionLoading = False\<rparr> = []"
    by (simp add: clickable_def render_def paymentButtons_def canConfirm_def canCancel_def isAdmin_def
        remainingAmount_def totalPaid_def)
  ultimately show ?thesis using enc can by blast
qed

section \<open>Validation of a new payment\<close>









end
